theory Spec2Isabelle
  imports Main
begin

section \<open>The journal entry service\<close>

text \<open>
  The route handlers \<open>POST\<close>, \<open>GET\<close>, \<open>DELETE\<close> and \<open>PUT\<close> of the entry API, as functions
  from the resolved session, the request and the database state to the response and
  the new database state. Every \<open>connection.execute\<close> of the source is one function on
  the database below, applied in the order the handler awaits them.
\<close>

subsection \<open>Tables\<close>

text \<open>
  Modelled from the spec: the table declarations are not part of the source. The spec
  gives \<open>Entry {id (primary key, auto-assigned), user, text, createdAt}\<close>,
  \<open>Competency {id, skill, description}\<close> and the join relation
  \<open>EntryCompetency {entryID, competencyID}\<close>. A table is the list of its rows in
  insertion order; \<open>auto_increment\<close> is the next identifier the database assigns.
  Timestamps are clock readings (a number), not formatted. No constraint is checked
  (no foreign key, no uniqueness of a tag row) and no statement fails.
\<close>

record entry =
  entry_id :: int
  entry_user :: string
  entry_text :: string
  entry_createdAt :: nat

record entry_competency =
  ec_entryID :: int
  ec_competencyID :: int

record competency =
  competency_id :: int
  competency_skill :: string
  competency_description :: string

record database =
  Entry :: "entry list"
  EntryCompetency :: "entry_competency list"
  Competency :: "competency list"
  auto_increment :: int

text \<open>The primary key of \<open>Entry\<close>: identifiers are unique and were assigned in the past.\<close>

definition primary_key :: "database \<Rightarrow> bool" where
  "primary_key db \<longleftrightarrow>
     distinct (map entry_id (Entry db)) \<and>
     list_all (\<lambda>e. entry_id e < auto_increment db) (Entry db)"

subsection \<open>Session, request and response\<close>

text \<open>
  \<open>getServerSession\<close> yields \<open>{user: {email}}\<close> or null; each level may be missing.
  The guard \<open>!session || !session.user?.email\<close> also rejects the empty email, which
  is falsy.
\<close>

record session_user =
  email :: "string option"

record session =
  user :: "session_user option"

definition session_email :: "session option \<Rightarrow> string option" where
  "session_email s =
     (case s of
        None \<Rightarrow> None
      | Some ss \<Rightarrow>
          (case user ss of
             None \<Rightarrow> None
           | Some u \<Rightarrow>
               (case email u of
                  None \<Rightarrow> None
                | Some e \<Rightarrow> if e = [] then None else Some e)))"

text \<open>
  A request carries the pathname of its URL and its body. \<open>json = None\<close> is a body
  that is not JSON: \<open>req.json()\<close> throws and the handler's \<open>catch\<close> answers 500.
  A JSON body has the shape \<open>{text, competencyIDs}\<close> of the interface.
\<close>

record json_body =
  body_text :: string
  body_competencyIDs :: "int list"

record request =
  pathname :: string
  json :: "json_body option"

text \<open>
  A row of the list answer: \<open>JSON_ARRAYAGG\<close> yields a JSON array whose elements may be
  null, so \<open>competencies\<close> is a list of optional identifiers.
\<close>

record entry_row =
  row_id :: int
  row_text :: string
  row_createdAt :: nat
  row_competencies :: "int option list"

record created_entry =
  created_id :: int
  created_text :: string
  created_createdAt :: nat
  created_competencies :: "int list"

datatype payload =
    ErrorJson string
  | MessageJson string
  | EntriesJson "entry_row list"
  | CreatedJson created_entry

record response =
  status :: nat
  payload :: payload

definition json_response :: "payload \<Rightarrow> nat \<Rightarrow> response" where
  "json_response p s = \<lparr>status = s, payload = p\<rparr>"

subsection \<open>The entry identifier of a URL\<close>

text \<open>\<open>String.prototype.split\<close> with a one-character separator: never an empty array.\<close>

fun str_split :: "char \<Rightarrow> string \<Rightarrow> string list" where
  "str_split sep [] = [[]]"
| "str_split sep (c # cs) =
     (if c = sep then [] # str_split sep cs
      else (case str_split sep cs of
              [] \<Rightarrow> [[c]]
            | w # ws \<Rightarrow> (c # w) # ws))"

text \<open>\<open>Array.prototype.pop\<close>: the last element, undefined on the empty array.\<close>

definition pop :: "'a list \<Rightarrow> 'a option" where
  "pop xs = (if xs = [] then None else Some (last xs))"

subsection \<open>The statements\<close>

text \<open>\<open>INSERT INTO Entry (user, text) VALUES (?, ?)\<close>; the result is \<open>insertId\<close>.\<close>

definition insert_entry :: "string \<Rightarrow> string \<Rightarrow> nat \<Rightarrow> database \<Rightarrow> int \<times> database" where
  "insert_entry u t now db =
     (auto_increment db,
      db\<lparr>Entry := Entry db @
            [\<lparr>entry_id = auto_increment db, entry_user = u, entry_text = t,
              entry_createdAt = now\<rparr>],
         auto_increment := auto_increment db + 1\<rparr>)"

text \<open>\<open>INSERT INTO EntryCompetency (entryID, competencyID) VALUES (?, ?)\<close>.\<close>

definition insert_entry_competency :: "int \<Rightarrow> int \<Rightarrow> database \<Rightarrow> database" where
  "insert_entry_competency n c db =
     db\<lparr>EntryCompetency := EntryCompetency db @ [\<lparr>ec_entryID = n, ec_competencyID = c\<rparr>]\<rparr>"

text \<open>The loop \<open>for (const compID of competencyIDs)\<close> around that statement.\<close>

fun insert_competencies :: "int \<Rightarrow> int list \<Rightarrow> database \<Rightarrow> database" where
  "insert_competencies n [] db = db"
| "insert_competencies n (c # cs) db =
     insert_competencies n cs (insert_entry_competency n c db)"

text \<open>\<open>DELETE FROM EntryCompetency WHERE entryID = ?\<close>.\<close>

definition delete_entry_competency :: "int \<Rightarrow> database \<Rightarrow> database" where
  "delete_entry_competency n db =
     db\<lparr>EntryCompetency := filter (\<lambda>r. ec_entryID r \<noteq> n) (EntryCompetency db)\<rparr>"

text \<open>\<open>DELETE FROM Entry WHERE id = ? AND user = ?\<close>; the result is \<open>affectedRows\<close>.\<close>

definition delete_entry :: "int \<Rightarrow> string \<Rightarrow> database \<Rightarrow> nat \<times> database" where
  "delete_entry n u db =
     (length (filter (\<lambda>e. entry_id e = n \<and> entry_user e = u) (Entry db)),
      db\<lparr>Entry := filter (\<lambda>e. \<not> (entry_id e = n \<and> entry_user e = u)) (Entry db)\<rparr>)"

text \<open>
  \<open>UPDATE Entry SET text = ? WHERE id = ? AND user = ?\<close>; \<open>affectedRows\<close> counts the
  rows the condition finds (the driver's default), changed or not.
\<close>

definition update_entry :: "string \<Rightarrow> int \<Rightarrow> string \<Rightarrow> database \<Rightarrow> nat \<times> database" where
  "update_entry t n u db =
     (length (filter (\<lambda>e. entry_id e = n \<and> entry_user e = u) (Entry db)),
      db\<lparr>Entry := map (\<lambda>e. if entry_id e = n \<and> entry_user e = u
                             then e\<lparr>entry_text := t\<rparr> else e) (Entry db)\<rparr>)"

text \<open>
  \<open>LEFT JOIN\<close>: every left row with each right row the condition holds for, and once
  with NULL when it holds for none.
\<close>

definition left_join :: "('a \<Rightarrow> 'b \<Rightarrow> bool) \<Rightarrow> 'a list \<Rightarrow> 'b list \<Rightarrow> ('a \<times> 'b option) list" where
  "left_join cond xs ys =
     concat (map (\<lambda>x. case filter (cond x) ys of
                         [] \<Rightarrow> [(x, None)]
                       | m # ms \<Rightarrow> map (\<lambda>y. (x, Some y)) (m # ms)) xs)"

type_synonym joined_row = "(entry \<times> entry_competency option) \<times> competency option"

text \<open>
  \<open>FROM Entry e LEFT JOIN EntryCompetency ec ON e.id = ec.entryID
  LEFT JOIN Competency c ON ec.competencyID = c.id\<close>; a NULL \<open>ec\<close> equals nothing.
\<close>

definition joined :: "database \<Rightarrow> joined_row list" where
  "joined db =
     left_join (\<lambda>(e, ec) c. case ec of
                               None \<Rightarrow> False
                             | Some r \<Rightarrow> ec_competencyID r = competency_id c)
       (left_join (\<lambda>e r. entry_id e = ec_entryID r) (Entry db) (EntryCompetency db))
       (Competency db)"

text \<open>
  Auxiliary, for the proofs: the joined rows of one entry, that is the joins above
  from that entry alone.
\<close>

definition block :: "database \<Rightarrow> entry \<Rightarrow> joined_row list" where
  "block db e =
     left_join (\<lambda>(e, ec) c. case ec of
                               None \<Rightarrow> False
                             | Some r \<Rightarrow> ec_competencyID r = competency_id c)
       (left_join (\<lambda>e r. entry_id e = ec_entryID r) [e] (EntryCompetency db))
       (Competency db)"

text \<open>
  One answer row of a group: \<open>e.id, e.text, e.createdAt\<close> of the group's entry and
  \<open>JSON_ARRAYAGG(c.id)\<close> over all rows of the group, NULL included.
\<close>

definition aggregate :: "joined_row \<Rightarrow> joined_row list \<Rightarrow> entry_row" where
  "aggregate r rs =
     \<lparr>row_id = entry_id (fst (fst r)),
      row_text = entry_text (fst (fst r)),
      row_createdAt = entry_createdAt (fst (fst r)),
      row_competencies = map (\<lambda>x. map_option competency_id (snd x)) (r # rs)\<rparr>"

text \<open>
  The \<open>SELECT\<close> of the list handler: \<open>WHERE e.user = ?\<close>, \<open>GROUP BY e.id\<close>,
  \<open>ORDER BY e.id DESC\<close>.
\<close>

definition select_entries :: "string \<Rightarrow> database \<Rightarrow> entry_row list" where
  "select_entries u db =
     (let rows = filter (\<lambda>r. entry_user (fst (fst r)) = u) (joined db);
          ids = rev (sort (remdups (map (\<lambda>r. entry_id (fst (fst r))) rows)))
      in concat (map (\<lambda>i. case filter (\<lambda>r. entry_id (fst (fst r)) = i) rows of
                             [] \<Rightarrow> []
                           | r # rs \<Rightarrow> [aggregate r rs]) ids))"

subsection \<open>The handlers\<close>

text \<open>
  \<open>db_now\<close> is the timestamp the database gives the new row, \<open>js_now\<close> the reading of
  \<open>new Date()\<close> when the answer is built.
\<close>

definition POST :: "session option \<Rightarrow> request \<Rightarrow> nat \<Rightarrow> nat \<Rightarrow> database \<Rightarrow> response \<times> database" where
  "POST sess req db_now js_now db =
     (case session_email sess of
        None \<Rightarrow> (json_response (ErrorJson ''Not Authenticated'') 401, db)
      | Some em \<Rightarrow>
          (case json req of
             None \<Rightarrow> (json_response (ErrorJson ''Failed to add the entry.'') 500, db)
           | Some b \<Rightarrow>
               (let (entryID, db1) = insert_entry em (body_text b) db_now db;
                    db2 = insert_competencies entryID (body_competencyIDs b) db1
                in (json_response
                      (CreatedJson \<lparr>created_id = entryID, created_text = body_text b,
                                    created_createdAt = js_now,
                                    created_competencies = body_competencyIDs b\<rparr>) 200,
                    db2))))"

definition GET :: "session option \<Rightarrow> database \<Rightarrow> response" where
  "GET sess db =
     (case session_email sess of
        None \<Rightarrow> json_response (EntriesJson []) 200
      | Some userEmail \<Rightarrow> json_response (EntriesJson (select_entries userEmail db)) 200)"

text \<open>
  The identifier of \<open>DELETE\<close> and \<open>PUT\<close> is a string, the last part of the pathname;
  \<open>num\<close> is the integer the database reads that string as where a statement compares
  it with, or stores it in, an integer column.
\<close>

definition DELETE :: "(string \<Rightarrow> int) \<Rightarrow> session option \<Rightarrow> request \<Rightarrow> database \<Rightarrow> response \<times> database" where
  "DELETE num sess req db =
     (case session_email sess of
        None \<Rightarrow> (json_response (ErrorJson ''Not Authenticated'') 401, db)
      | Some em \<Rightarrow>
          (case pop (str_split CHR ''/'' (pathname req)) of
             None \<Rightarrow> (json_response (ErrorJson ''Entry ID not provided'') 400, db)
           | Some entryID \<Rightarrow>
               if entryID = [] then
                 (json_response (ErrorJson ''Entry ID not provided'') 400, db)
               else
                 (let db1 = delete_entry_competency (num entryID) db;
                      (affectedRows, db2) = delete_entry (num entryID) em db1
                  in if affectedRows = 0 then
                       (json_response
                          (ErrorJson ''Entry not found or not authorized to delete'') 404, db2)
                     else (json_response (MessageJson ''Entry deleted successfully'') 200, db2))))"

definition PUT :: "(string \<Rightarrow> int) \<Rightarrow> session option \<Rightarrow> request \<Rightarrow> database \<Rightarrow> response \<times> database" where
  "PUT num sess req db =
     (case session_email sess of
        None \<Rightarrow> (json_response (ErrorJson ''Not Authenticated'') 401, db)
      | Some em \<Rightarrow>
          (case pop (str_split CHR ''/'' (pathname req)) of
             None \<Rightarrow> (json_response (ErrorJson ''Entry ID not provided'') 400, db)
           | Some entryID \<Rightarrow>
               if entryID = [] then
                 (json_response (ErrorJson ''Entry ID not provided'') 400, db)
               else
                 (case json req of
                    None \<Rightarrow> (json_response (ErrorJson ''Failed to update the entry'') 500, db)
                  | Some b \<Rightarrow>
                      (let (affectedRows, db1) =
                             update_entry (body_text b) (num entryID) em db
                       in if affectedRows = 0 then
                            (json_response
                               (ErrorJson ''Entry not found or not authorized to edit'') 404,
                             db1)
                          else
                            (let db2 = delete_entry_competency (num entryID) db1;
                                 db3 = insert_competencies (num entryID)
                                         (body_competencyIDs b) db2
                             in (json_response (MessageJson ''Entry updated successfully'') 200,
                                 db3))))))"

text \<open>The competency identifiers of the tag rows of entry \<open>n\<close>, in table order.\<close>

definition attached :: "int \<Rightarrow> database \<Rightarrow> int list" where
  "attached n db = map ec_competencyID (filter (\<lambda>r. ec_entryID r = n) (EntryCompetency db))"

text \<open>The rows of a list answer (none when the payload is not a list).\<close>

definition entries_of :: "response \<Rightarrow> entry_row list" where
  "entries_of r = (case payload r of EntriesJson rs \<Rightarrow> rs | _ \<Rightarrow> [])"

subsection \<open>Concrete data for the examples\<close>

text \<open>
  An instance of \<open>num\<close>: the value of the leading decimal digits of the string, 0 when
  it starts with none.
\<close>

definition decimal_num :: "string \<Rightarrow> int" where
  "decimal_num s =
     foldl (\<lambda>n c. 10 * n + (int (of_char c) - 48)) 0
       (takeWhile (\<lambda>c. (48::nat) \<le> of_char c \<and> (of_char c :: nat) \<le> 57) s)"

definition alice :: "session option" where
  "alice = Some \<lparr>user = Some \<lparr>email = Some ''alice@example.org''\<rparr>\<rparr>"

definition bob :: "session option" where
  "bob = Some \<lparr>user = Some \<lparr>email = Some ''bob@example.org''\<rparr>\<rparr>"

definition catalog :: "competency list" where
  "catalog =
     [\<lparr>competency_id = 1, competency_skill = ''Communication'', competency_description = []\<rparr>,
      \<lparr>competency_id = 2, competency_skill = ''Teamwork'', competency_description = []\<rparr>,
      \<lparr>competency_id = 3, competency_skill = ''Planning'', competency_description = []\<rparr>]"

definition journal :: database where
  "journal =
     \<lparr>Entry =
        [\<lparr>entry_id = 1, entry_user = ''alice@example.org'', entry_text = ''first'',
          entry_createdAt = 10\<rparr>,
         \<lparr>entry_id = 2, entry_user = ''bob@example.org'', entry_text = ''second'',
          entry_createdAt = 20\<rparr>],
      EntryCompetency =
        [\<lparr>ec_entryID = 1, ec_competencyID = 1\<rparr>, \<lparr>ec_entryID = 1, ec_competencyID = 3\<rparr>,
         \<lparr>ec_entryID = 2, ec_competencyID = 2\<rparr>],
      Competency = catalog,
      auto_increment = 3\<rparr>"

text \<open>One entry of Alice with no tag row.\<close>

definition untagged :: database where
  "untagged =
     \<lparr>Entry =
        [\<lparr>entry_id = 1, entry_user = ''alice@example.org'', entry_text = ''first'',
          entry_createdAt = 10\<rparr>],
      EntryCompetency = [],
      Competency = catalog,
      auto_increment = 2\<rparr>"

section \<open>Properties\<close>

subsection \<open>Joins and groups\<close>

lemma left_join_fst: "fst ` set (left_join cond xs ys) = set xs"
proof -
  have "\<And>x. fst ` set (case filter (cond x) ys of [] \<Rightarrow> [(x, None)]
                          | m # ms \<Rightarrow> map (\<lambda>y. (x, Some y)) (m # ms)) = {x}"
    by (auto split: list.splits simp: image_iff)
  then show ?thesis
    by (auto simp: left_join_def image_UN)
qed

lemma joined_entries: "(\<lambda>r. fst (fst r)) ` set (joined db) = set (Entry db)"
proof -
  have "(\<lambda>r. fst (fst r)) ` set (joined db) = fst ` (fst ` set (joined db))"
    by (simp add: image_image)
  then show ?thesis
    by (simp add: joined_def left_join_fst)
qed

lemma group_ids:
  assumes "set is \<subseteq> (\<lambda>r. entry_id (fst (fst r))) ` set rows"
  shows "map row_id (concat (map (\<lambda>i. case filter (\<lambda>r. entry_id (fst (fst r)) = i) rows of
                                         [] \<Rightarrow> []
                                       | r # rs \<Rightarrow> [aggregate r rs]) is)) = is"
  using assms
proof (induction "is")
  case Nil
  then show ?case by simp
next
  case (Cons i "is")
  then obtain r0 where r0: "r0 \<in> set rows" "entry_id (fst (fst r0)) = i" by auto
  then have "filter (\<lambda>r. entry_id (fst (fst r)) = i) rows \<noteq> []"
    by (auto simp: filter_empty_conv)
  then obtain r rs where g: "filter (\<lambda>r. entry_id (fst (fst r)) = i) rows = r # rs"
    by (cases "filter (\<lambda>r. entry_id (fst (fst r)) = i) rows") auto
  then have "r \<in> set (filter (\<lambda>r. entry_id (fst (fst r)) = i) rows)" by simp
  then have "entry_id (fst (fst r)) = i" by simp
  with g Cons show ?case by (simp add: aggregate_def)
qed

lemma select_entries_ids:
  "map row_id (select_entries u db) =
     rev (sort (remdups (map (\<lambda>r. entry_id (fst (fst r)))
        (filter (\<lambda>r. entry_user (fst (fst r)) = u) (joined db)))))"
  unfolding select_entries_def Let_def
  by (rule group_ids) auto

subsection \<open>Order of the list answer\<close>

text \<open>
  C9. The rows of every list answer are in strictly descending order of entry
  identifier: each identifier is greater than all that follow it, whatever the texts,
  timestamps and table order of the entries are.
\<close>

theorem GET_descending:
  "sorted_wrt (\<lambda>a b. a > b) (map row_id (entries_of (GET sess db)))"
proof (cases "session_email sess")
  case None
  then show ?thesis by (simp add: GET_def entries_of_def json_response_def)
next
  case (Some u)
  have "sorted_wrt (<) (sort (remdups (map (\<lambda>r. entry_id (fst (fst r)))
        (filter (\<lambda>r. entry_user (fst (fst r)) = u) (joined db)))))"
    by (simp add: strict_sorted_iff)
  then show ?thesis
    using Some by (simp add: GET_def entries_of_def json_response_def select_entries_ids sorted_wrt_rev)
qed

subsection \<open>Update\<close>

lemma insert_competencies_rows:
  "insert_competencies n cs db =
     db\<lparr>EntryCompetency := EntryCompetency db @
           map (\<lambda>c. \<lparr>ec_entryID = n, ec_competencyID = c\<rparr>) cs\<rparr>"
  by (induction cs arbitrary: db) (simp_all add: insert_entry_competency_def)

lemma update_entry_none:
  assumes "filter (\<lambda>e. entry_id e = n \<and> entry_user e = u) (Entry db) = []"
  shows "update_entry t n u db = (0, db)"
proof -
  have "map (\<lambda>e. if entry_id e = n \<and> entry_user e = u then e\<lparr>entry_text := t\<rparr> else e) (Entry db)
        = Entry db"
    using assms by (intro map_idI) (auto simp: filter_empty_conv)
  then show ?thesis using assms by (simp add: update_entry_def)
qed

text \<open>Facts of the concrete data.\<close>

lemma example_ids:
  "decimal_num ''1'' = 1" "decimal_num ''2'' = 2" "decimal_num ''9'' = 9"
  "decimal_num ''entry'' = 0"
  by (simp_all add: decimal_num_def)

lemma example_sessions:
  "session_email alice = Some ''alice@example.org''"
  "session_email bob = Some ''bob@example.org''"
  by (simp_all add: session_email_def alice_def bob_def)

text \<open>
  C3. An authenticated update with a well-formed body whose identifier is that of no
  entry owned by the caller answers 404 and leaves the whole database as it was: the
  \<open>UPDATE\<close> finds no row, and the handler returns before it touches the tag rows.
\<close>

theorem PUT_not_found:
  assumes "session_email sess = Some em"
    and "pop (str_split CHR ''/'' (pathname req)) = Some entryID"
    and "entryID \<noteq> []"
    and "json req = Some b"
    and "\<forall>e \<in> set (Entry db). \<not> (entry_id e = num entryID \<and> entry_user e = em)"
  shows "PUT num sess req db =
           (json_response (ErrorJson ''Entry not found or not authorized to edit'') 404, db)"
proof -
  have "filter (\<lambda>e. entry_id e = num entryID \<and> entry_user e = em) (Entry db) = []"
    using assms(5) by (auto simp: filter_empty_conv)
  then show ?thesis
    using assms(1-4) by (simp add: PUT_def update_entry_none)
qed

theorem PUT_not_found_witness:
  "PUT decimal_num alice
     \<lparr>pathname = ''/api/entry/2'',
      json = Some \<lparr>body_text = ''mine now'', body_competencyIDs = [3]\<rparr>\<rparr> journal =
   (\<lparr>status = 404, payload = ErrorJson ''Entry not found or not authorized to edit''\<rparr>, journal)"
proof -
  let ?b = "\<lparr>body_text = ''mine now'', body_competencyIDs = [3]\<rparr>"
  let ?req = "\<lparr>pathname = ''/api/entry/2'', json = Some ?b\<rparr>"
  have h2: "pop (str_split CHR ''/'' (pathname ?req)) = Some ''2''"
    by (simp add: pop_def)
  have h3: "''2'' \<noteq> []" by simp
  have h4: "json ?req = Some ?b" by simp
  have h5: "\<forall>e \<in> set (Entry journal).
          \<not> (entry_id e = decimal_num ''2'' \<and> entry_user e = ''alice@example.org'')"
    by (simp add: journal_def example_ids)
  show ?thesis
    using PUT_not_found [where num = decimal_num, OF example_sessions(1) h2 h3 h4 h5]
    by (simp add: json_response_def)
qed


text \<open>
  A body that is not JSON is answered 500 before any statement runs.
\<close>

lemma PUT_no_body:
  assumes "session_email sess = Some em"
    and "pop (str_split CHR ''/'' (pathname req)) = Some entryID"
    and "entryID \<noteq> []"
    and "json req = None"
  shows "PUT num sess req db =
           (json_response (ErrorJson ''Failed to update the entry'') 500, db)"
  using assms by (simp add: PUT_def)

text \<open>
  C1. An authenticated update of an entry the caller owns answers 200, deletes every
  tag row of the entry and appends one tag row per supplied competency identifier, in
  the order supplied; the identifiers attached to the entry are then exactly the
  supplied sequence, whatever was attached before.
\<close>

theorem PUT_replaces_competencies:
  assumes "session_email sess = Some em"
    and "pop (str_split CHR ''/'' (pathname req)) = Some entryID"
    and "entryID \<noteq> []"
    and "json req = Some b"
    and "e \<in> set (Entry db)" and "entry_id e = num entryID" and "entry_user e = em"
  shows "status (fst (PUT num sess req db)) = 200 \<and>
         EntryCompetency (snd (PUT num sess req db)) =
           filter (\<lambda>r. ec_entryID r \<noteq> num entryID) (EntryCompetency db) @
           map (\<lambda>c. \<lparr>ec_entryID = num entryID, ec_competencyID = c\<rparr>) (body_competencyIDs b) \<and>
         attached (num entryID) (snd (PUT num sess req db)) = body_competencyIDs b"
proof -
  have "filter (\<lambda>e. entry_id e = num entryID \<and> entry_user e = em) (Entry db) \<noteq> []"
    using assms(5-7) by (auto simp: filter_empty_conv)
  then show ?thesis
    using assms(1-4)
    by (simp add: PUT_def update_entry_def delete_entry_competency_def insert_competencies_rows
        json_response_def attached_def comp_def)
qed

theorem PUT_replaces_competencies_witness:
  "status (fst (PUT decimal_num alice
     \<lparr>pathname = ''/api/entry/1'',
      json = Some \<lparr>body_text = ''edited'', body_competencyIDs = [2]\<rparr>\<rparr> journal)) = 200 \<and>
   attached 1 journal = [1, 3] \<and>
   attached 1 (snd (PUT decimal_num alice
     \<lparr>pathname = ''/api/entry/1'',
      json = Some \<lparr>body_text = ''edited'', body_competencyIDs = [2]\<rparr>\<rparr> journal)) = [2]"
proof -
  let ?b = "\<lparr>body_text = ''edited'', body_competencyIDs = [2]\<rparr>"
  let ?req = "\<lparr>pathname = ''/api/entry/1'', json = Some ?b\<rparr>"
  let ?e = "\<lparr>entry_id = 1, entry_user = ''alice@example.org'', entry_text = ''first'',
             entry_createdAt = 10\<rparr>"
  have h2: "pop (str_split CHR ''/'' (pathname ?req)) = Some ''1''"
    by (simp add: pop_def)
  have h3: "''1'' \<noteq> []" by simp
  have h4: "json ?req = Some ?b" by simp
  have h5: "?e \<in> set (Entry journal)" by (simp add: journal_def)
  have h6: "entry_id ?e = decimal_num ''1''" by (simp add: example_ids)
  have h7: "entry_user ?e = ''alice@example.org''" by simp
  have "attached 1 journal = [1, 3]" by (simp add: attached_def journal_def)
  then show ?thesis
    using PUT_replaces_competencies [where num = decimal_num, OF example_sessions(1) h2 h3 h4 h5 h6 h7]
    by (simp add: example_ids)
qed

subsection \<open>Rows of the list answer\<close>

lemma concat_member: "i \<in> set xs \<Longrightarrow> x \<in> set (f i) \<Longrightarrow> x \<in> set (concat (map f xs))"
  by auto

lemma distinct_key_eq:
  "distinct (map f xs) \<Longrightarrow> x \<in> set xs \<Longrightarrow> y \<in> set xs \<Longrightarrow> f x = f y \<Longrightarrow> x = y"
  by (auto simp: distinct_map dest: inj_onD)

text \<open>
  Under the primary key, every entry of a user is a row of that user's list, with its
  own text and timestamp.
\<close>

lemma select_entries_row:
  assumes "distinct (map entry_id (Entry db))" and "e \<in> set (Entry db)" and "entry_user e = u"
  shows "\<exists>row \<in> set (select_entries u db).
           row_id row = entry_id e \<and> row_text row = entry_text e \<and>
           row_createdAt row = entry_createdAt e"
proof -
  define rows where "rows = filter (\<lambda>r. entry_user (fst (fst r)) = u) (joined db)"
  define g where "g = filter (\<lambda>r. entry_id (fst (fst r)) = entry_id e) rows"
  define ids where "ids = rev (sort (remdups (map (\<lambda>r. entry_id (fst (fst r))) rows)))"
  define f where "f = (\<lambda>i. case filter (\<lambda>r. entry_id (fst (fst r)) = i) rows of
                             [] \<Rightarrow> []
                           | r # rs \<Rightarrow> [aggregate r rs])"
  have sel: "select_entries u db = concat (map f ids)"
    by (simp add: select_entries_def rows_def ids_def f_def)
  from assms(2) have "e \<in> (\<lambda>r. fst (fst r)) ` set (joined db)"
    by (simp add: joined_entries)
  then obtain r0 where r0: "r0 \<in> set (joined db)" "fst (fst r0) = e"
    by blast
  with assms(3) have in_rows: "r0 \<in> set rows" by (simp add: rows_def)
  then have "r0 \<in> set g" using r0 by (simp add: g_def)
  then obtain r rs where g: "g = r # rs" by (cases g) auto
  then have "r \<in> set g" by simp
  then have r: "r \<in> set (joined db)" "entry_id (fst (fst r)) = entry_id e"
    by (simp_all add: g_def rows_def)
  from r(1) have "fst (fst r) \<in> (\<lambda>r. fst (fst r)) ` set (joined db)" by (rule imageI)
  then have "fst (fst r) \<in> set (Entry db)" by (simp add: joined_entries)
  with r(2) assms(1,2) have re: "fst (fst r) = e"
    by (simp add: distinct_key_eq)
  have m: "entry_id e \<in> set ids" using in_rows r0(2) by (auto simp: ids_def)
  have "f (entry_id e) = [aggregate r rs]"
    using g by (simp add: g_def f_def)
  then have "aggregate r rs \<in> set (f (entry_id e))" by simp
  with m have "aggregate r rs \<in> set (select_entries u db)"
    unfolding sel by (rule concat_member)
  moreover have "row_id (aggregate r rs) = entry_id e \<and> row_text (aggregate r rs) = entry_text e \<and>
           row_createdAt (aggregate r rs) = entry_createdAt e"
    using re by (simp add: aggregate_def)
  ultimately show ?thesis by blast
qed

subsection \<open>Delete\<close>

lemma DELETE_unfold:
  assumes "session_email sess = Some em"
    and "pop (str_split CHR ''/'' (pathname req)) = Some entryID"
    and "entryID \<noteq> []"
  shows "DELETE num sess req db =
     (json_response
        (if filter (\<lambda>e. entry_id e = num entryID \<and> entry_user e = em) (Entry db) = []
         then ErrorJson ''Entry not found or not authorized to delete''
         else MessageJson ''Entry deleted successfully'')
        (if filter (\<lambda>e. entry_id e = num entryID \<and> entry_user e = em) (Entry db) = []
         then 404 else 200),
      db\<lparr>Entry := filter (\<lambda>e. \<not> (entry_id e = num entryID \<and> entry_user e = em)) (Entry db),
         EntryCompetency := filter (\<lambda>r. ec_entryID r \<noteq> num entryID) (EntryCompetency db)\<rparr>)"
  using assms
  by (simp add: DELETE_def delete_entry_def delete_entry_competency_def)

text \<open>
  C10. The same authenticated delete issued twice for an entry the caller owns answers
  200 the first time and 404 the second time: the first call removes every row with
  that identifier and owner, so the second finds none.
\<close>

theorem DELETE_twice:
  assumes "session_email sess = Some em"
    and "pop (str_split CHR ''/'' (pathname req)) = Some entryID"
    and "entryID \<noteq> []"
    and "e \<in> set (Entry db)" and "entry_id e = num entryID" and "entry_user e = em"
  shows "status (fst (DELETE num sess req db)) = 200 \<and>
         status (fst (DELETE num sess req (snd (DELETE num sess req db)))) = 404"
proof -
  have "filter (\<lambda>e. entry_id e = num entryID \<and> entry_user e = em) (Entry db) \<noteq> []"
    using assms(4-6) by (auto simp: filter_empty_conv)
  then show ?thesis
    by (simp add: DELETE_unfold [OF assms(1-3)] json_response_def)
qed

theorem DELETE_twice_witness:
  "status (fst (DELETE decimal_num alice \<lparr>pathname = ''/api/entry/1'', json = None\<rparr> journal)) = 200 \<and>
   status (fst (DELETE decimal_num alice \<lparr>pathname = ''/api/entry/1'', json = None\<rparr>
     (snd (DELETE decimal_num alice \<lparr>pathname = ''/api/entry/1'', json = None\<rparr> journal)))) = 404"
proof -
  let ?req = "\<lparr>pathname = ''/api/entry/1'', json = None\<rparr>"
  let ?e = "\<lparr>entry_id = 1, entry_user = ''alice@example.org'', entry_text = ''first'',
             entry_createdAt = 10\<rparr>"
  have h2: "pop (str_split CHR ''/'' (pathname ?req)) = Some ''1''"
    by (simp add: pop_def)
  have h3: "''1'' \<noteq> []" by simp
  have h4: "?e \<in> set (Entry journal)" by (simp add: journal_def)
  have h5: "entry_id ?e = decimal_num ''1''" by (simp add: example_ids)
  have h6: "entry_user ?e = ''alice@example.org''" by simp
  show ?thesis
    using DELETE_twice [where num = decimal_num, OF example_sessions(1) h2 h3 h4 h5 h6]
    by simp
qed

lemma foreign_entry_not_owned:
  assumes "distinct (map entry_id (Entry db))"
    and "e \<in> set (Entry db)" and "entry_id e = n" and "entry_user e \<noteq> em"
  shows "filter (\<lambda>e. entry_id e = n \<and> entry_user e = em) (Entry db) = []"
proof -
  have "\<And>x. x \<in> set (Entry db) \<Longrightarrow> entry_id x = n \<Longrightarrow> x = e"
    using assms(1-3) by (simp add: distinct_key_eq)
  then show ?thesis using assms(4) by (auto simp: filter_empty_conv)
qed

lemma filter_not_none:
  "filter P xs = [] \<Longrightarrow> filter (\<lambda>x. \<not> P x) xs = xs"
  by (induction xs) (auto split: if_splits)

text \<open>
  C4. An authenticated delete aimed at an entry of another user answers 404, and yet
  the tag rows of that entry are gone afterwards: the first statement removes them by
  entry identifier alone, before the owner-filtered statement finds nothing to delete.
  When the entry had a tag, the database after the call differs from the one before.
\<close>

theorem DELETE_foreign_strips_tags:
  assumes "session_email sess = Some em"
    and "pop (str_split CHR ''/'' (pathname req)) = Some entryID"
    and "entryID \<noteq> []"
    and "primary_key db"
    and "e \<in> set (Entry db)" and "entry_id e = num entryID" and "entry_user e \<noteq> em"
  shows "status (fst (DELETE num sess req db)) = 404 \<and>
         EntryCompetency (snd (DELETE num sess req db)) =
           filter (\<lambda>r. ec_entryID r \<noteq> num entryID) (EntryCompetency db) \<and>
         attached (num entryID) (snd (DELETE num sess req db)) = [] \<and>
         (attached (num entryID) db \<noteq> [] \<longrightarrow> snd (DELETE num sess req db) \<noteq> db)"
proof -
  have none: "filter (\<lambda>e. entry_id e = num entryID \<and> entry_user e = em) (Entry db) = []"
    using assms(4-7) by (intro foreign_entry_not_owned [of db e]) (simp_all add: primary_key_def)
  have st: "status (fst (DELETE num sess req db)) = 404"
    by (simp add: DELETE_unfold [OF assms(1-3)] none json_response_def)
  have tags: "EntryCompetency (snd (DELETE num sess req db)) =
           filter (\<lambda>r. ec_entryID r \<noteq> num entryID) (EntryCompetency db)"
    by (simp add: DELETE_unfold [OF assms(1-3)])
  have att: "attached (num entryID) (snd (DELETE num sess req db)) = []"
    by (simp add: tags attached_def)
  have "attached (num entryID) db \<noteq> [] \<longrightarrow> snd (DELETE num sess req db) \<noteq> db"
    using att by metis
  with st tags att show ?thesis by simp
qed

theorem DELETE_foreign_strips_tags_witness:
  "status (fst (DELETE decimal_num alice \<lparr>pathname = ''/api/entry/2'', json = None\<rparr> journal)) = 404 \<and>
   attached 2 journal = [2] \<and>
   attached 2 (snd (DELETE decimal_num alice \<lparr>pathname = ''/api/entry/2'', json = None\<rparr> journal)) = [] \<and>
   snd (DELETE decimal_num alice \<lparr>pathname = ''/api/entry/2'', json = None\<rparr> journal) \<noteq> journal"
proof -
  let ?req = "\<lparr>pathname = ''/api/entry/2'', json = None\<rparr>"
  let ?e = "\<lparr>entry_id = 2, entry_user = ''bob@example.org'', entry_text = ''second'',
             entry_createdAt = 20\<rparr>"
  have h2: "pop (str_split CHR ''/'' (pathname ?req)) = Some ''2''"
    by (simp add: pop_def)
  have h3: "''2'' \<noteq> []" by simp
  have h4: "primary_key journal" by (simp add: primary_key_def journal_def)
  have h5: "?e \<in> set (Entry journal)" by (simp add: journal_def)
  have h6: "entry_id ?e = decimal_num ''2''" by (simp add: example_ids)
  have h7: "entry_user ?e \<noteq> ''alice@example.org''" by simp
  have a: "attached 2 journal = [2]" by (simp add: attached_def journal_def)
  show ?thesis
    using DELETE_foreign_strips_tags [where num = decimal_num, OF example_sessions(1) h2 h3 h4 h5 h6 h7]
    by (simp add: example_ids a)
qed

text \<open>
  C5. An authenticated delete aimed at an entry of another user answers 404, leaves
  the \<open>Entry\<close> table as it was, and the owner's list still answers 200 with a row
  of that entry's identifier, text and timestamp.
\<close>

theorem DELETE_foreign_keeps_entry:
  assumes "session_email sess = Some em"
    and "pop (str_split CHR ''/'' (pathname req)) = Some entryID"
    and "entryID \<noteq> []"
    and "primary_key db"
    and "e \<in> set (Entry db)" and "entry_id e = num entryID" and "entry_user e \<noteq> em"
    and "session_email owner = Some (entry_user e)"
  shows "status (fst (DELETE num sess req db)) = 404 \<and>
         Entry (snd (DELETE num sess req db)) = Entry db \<and>
         status (GET owner (snd (DELETE num sess req db))) = 200 \<and>
         (\<exists>row \<in> set (entries_of (GET owner (snd (DELETE num sess req db)))).
            row_id row = entry_id e \<and> row_text row = entry_text e \<and>
            row_createdAt row = entry_createdAt e)"
proof -
  have none: "filter (\<lambda>e. entry_id e = num entryID \<and> entry_user e = em) (Entry db) = []"
    using assms(4-7) by (intro foreign_entry_not_owned [of db e]) (simp_all add: primary_key_def)
  have st: "status (fst (DELETE num sess req db)) = 404"
    by (simp add: DELETE_unfold [OF assms(1-3)] none json_response_def)
  have ent: "Entry (snd (DELETE num sess req db)) = Entry db"
    using filter_not_none [OF none] by (simp add: DELETE_unfold [OF assms(1-3)])
  have "distinct (map entry_id (Entry (snd (DELETE num sess req db))))"
    using assms(4) by (simp add: ent primary_key_def)
  moreover have "e \<in> set (Entry (snd (DELETE num sess req db)))"
    using assms(5) by (simp add: ent)
  ultimately have "\<exists>row \<in> set (select_entries (entry_user e) (snd (DELETE num sess req db))).
           row_id row = entry_id e \<and> row_text row = entry_text e \<and>
           row_createdAt row = entry_createdAt e"
    by (intro select_entries_row) simp_all
  then show ?thesis
    using st ent assms(8) by (simp add: GET_def entries_of_def json_response_def)
qed

theorem DELETE_foreign_keeps_entry_witness:
  "status (fst (DELETE decimal_num alice \<lparr>pathname = ''/api/entry/2'', json = None\<rparr> journal)) = 404 \<and>
   Entry (snd (DELETE decimal_num alice \<lparr>pathname = ''/api/entry/2'', json = None\<rparr> journal)) =
     Entry journal \<and>
   (\<exists>row \<in> set (entries_of (GET bob
        (snd (DELETE decimal_num alice \<lparr>pathname = ''/api/entry/2'', json = None\<rparr> journal)))).
      row_id row = 2 \<and> row_text row = ''second'' \<and> row_createdAt row = 20)"
proof -
  let ?req = "\<lparr>pathname = ''/api/entry/2'', json = None\<rparr>"
  let ?e = "\<lparr>entry_id = 2, entry_user = ''bob@example.org'', entry_text = ''second'',
             entry_createdAt = 20\<rparr>"
  have h2: "pop (str_split CHR ''/'' (pathname ?req)) = Some ''2''"
    by (simp add: pop_def)
  have h3: "''2'' \<noteq> []" by simp
  have h4: "primary_key journal" by (simp add: primary_key_def journal_def)
  have h5: "?e \<in> set (Entry journal)" by (simp add: journal_def)
  have h6: "entry_id ?e = decimal_num ''2''" by (simp add: example_ids)
  have h7: "entry_user ?e \<noteq> ''alice@example.org''" by simp
  have h8: "session_email bob = Some (entry_user ?e)" by (simp add: example_sessions)
  show ?thesis
    using DELETE_foreign_keeps_entry [where num = decimal_num,
        OF example_sessions(1) h2 h3 h4 h5 h6 h7 h8]
    by simp
qed

subsection \<open>The missing identifier\<close>

text \<open>
  The last part of the pathname is empty exactly when the pathname is empty or ends
  with a slash; these are the requests the guard \<open>!entryID\<close> answers with 400.
\<close>

lemma str_split_not_Nil: "str_split sep p \<noteq> []"
  by (induction p) (auto split: list.splits)

lemma str_split_single: "str_split sep p = [w] \<Longrightarrow> w = p"
  by (induction p arbitrary: w) (auto split: if_splits list.splits simp: str_split_not_Nil)

lemma last_str_split_empty:
  "last (str_split sep p) = [] \<longleftrightarrow> p = [] \<or> last p = sep"
proof (induction p)
  case Nil
  then show ?case by simp
next
  case (Cons c cs)
  obtain w ws where s: "str_split sep cs = w # ws"
    using str_split_not_Nil [of sep cs] by (cases "str_split sep cs") auto
  show ?case
  proof (cases "cs = []")
    case True
    then show ?thesis by simp
  next
    case False
    then have "ws = [] \<Longrightarrow> w \<noteq> []"
      using s str_split_single [of sep cs w] by auto
    then show ?thesis
      using Cons s False by (auto split: if_splits)
  qed
qed

lemma pop_str_split:
  "pop (str_split CHR ''/'' p) = Some [] \<longleftrightarrow> p = [] \<or> last p = CHR ''/''"
  by (simp add: pop_def str_split_not_Nil last_str_split_empty)

lemma missing_id_segment:
  assumes "session_email sess = Some em"
    and "pathname req = [] \<or> last (pathname req) = CHR ''/''"
  shows "DELETE num sess req db = (json_response (ErrorJson ''Entry ID not provided'') 400, db)"
    and "PUT num sess req db = (json_response (ErrorJson ''Entry ID not provided'') 400, db)"
  using assms pop_str_split [of "pathname req"]
  by (simp_all add: DELETE_def PUT_def)

text \<open>
  C7. The claim is that an authenticated delete or update whose URL carries no entry
  identifier answers 400. At the collection path \<open>/api/entry\<close>, which carries none,
  the last part of the pathname is the word \<open>entry\<close>; the guard lets it through as
  the identifier, the statements run with it, and the answer is 404 or 200, whatever
  the database and whatever number it reads the word as.
\<close>

theorem collection_path_not_400:
  "pop (str_split CHR ''/'' ''/api/entry'') = Some ''entry'' \<and>
   status (fst (DELETE num alice \<lparr>pathname = ''/api/entry'', json = None\<rparr> db)) \<in> {200, 404} \<and>
   status (fst (PUT num alice \<lparr>pathname = ''/api/entry'', json = Some b\<rparr> db)) \<in> {200, 404}"
  by (simp add: DELETE_def PUT_def pop_def example_sessions json_response_def Let_def
      split: prod.splits)

subsection \<open>Requests without identity\<close>

text \<open>
  C6. Without an authenticated identity (no session, no user, no email, or the empty
  email) the list handler answers 200 with an empty array, while create, update and
  delete answer 401.
\<close>

theorem unauthenticated:
  assumes "session_email sess = None"
  shows "GET sess db = \<lparr>status = 200, payload = EntriesJson []\<rparr> \<and>
         status (fst (POST sess req db_now js_now db)) = 401 \<and>
         status (fst (PUT num sess req db)) = 401 \<and>
         status (fst (DELETE num sess req db)) = 401"
  using assms by (simp add: GET_def POST_def PUT_def DELETE_def json_response_def)

theorem unauthenticated_witness:
  "GET (Some \<lparr>user = Some \<lparr>email = Some []\<rparr>\<rparr>) journal = \<lparr>status = 200, payload = EntriesJson []\<rparr> \<and>
   status (fst (POST (Some \<lparr>user = Some \<lparr>email = Some []\<rparr>\<rparr>)
     \<lparr>pathname = ''/api/entry'', json = Some \<lparr>body_text = ''x'', body_competencyIDs = [1]\<rparr>\<rparr>
     7 8 journal)) = 401 \<and>
   status (fst (PUT decimal_num (Some \<lparr>user = Some \<lparr>email = Some []\<rparr>\<rparr>)
     \<lparr>pathname = ''/api/entry'', json = Some \<lparr>body_text = ''x'', body_competencyIDs = [1]\<rparr>\<rparr>
     journal)) = 401 \<and>
   status (fst (DELETE decimal_num (Some \<lparr>user = Some \<lparr>email = Some []\<rparr>\<rparr>)
     \<lparr>pathname = ''/api/entry'', json = Some \<lparr>body_text = ''x'', body_competencyIDs = [1]\<rparr>\<rparr>
     journal)) = 401"
proof -
  have h: "session_email (Some \<lparr>user = Some \<lparr>email = Some []\<rparr>\<rparr>) = None"
    by (simp add: session_email_def)
  show ?thesis
    using unauthenticated [OF h] by simp
qed

subsection \<open>Create\<close>

lemma POST_unfold:
  assumes "session_email sess = Some em" and "json req = Some b"
  shows "POST sess req db_now js_now db =
     (json_response
        (CreatedJson \<lparr>created_id = auto_increment db, created_text = body_text b,
                      created_createdAt = js_now,
                      created_competencies = body_competencyIDs b\<rparr>) 200,
      db\<lparr>Entry := Entry db @
            [\<lparr>entry_id = auto_increment db, entry_user = em, entry_text = body_text b,
              entry_createdAt = db_now\<rparr>],
         auto_increment := auto_increment db + 1,
         EntryCompetency := EntryCompetency db @
            map (\<lambda>c. \<lparr>ec_entryID = auto_increment db, ec_competencyID = c\<rparr>)
              (body_competencyIDs b)\<rparr>)"
  using assms by (simp add: POST_def insert_entry_def insert_competencies_rows)

lemma POST_primary_key:
  assumes "session_email sess = Some em" and "json req = Some b" and "primary_key db"
  shows "primary_key (snd (POST sess req db_now js_now db))"
  using assms(3)
  by (auto simp: POST_unfold [OF assms(1,2)] primary_key_def list_all_iff)

text \<open>
  C8. An authenticated create with a well-formed body appends exactly one entry row,
  owned by the caller and stamped by the database, then one tag row per supplied
  competency identifier in the order supplied. It answers 200 with the generated
  identifier, the text, the supplied identifiers and the handler's own clock reading
  (not the stored timestamp); the caller's list then has a row with that identifier
  and text, carrying the stored timestamp.
\<close>

theorem POST_creates_entry:
  assumes "session_email sess = Some em" and "json req = Some b" and "primary_key db"
  shows "fst (POST sess req db_now js_now db) =
           \<lparr>status = 200,
            payload = CreatedJson
              \<lparr>created_id = auto_increment db, created_text = body_text b,
               created_createdAt = js_now, created_competencies = body_competencyIDs b\<rparr>\<rparr> \<and>
         Entry (snd (POST sess req db_now js_now db)) =
           Entry db @ [\<lparr>entry_id = auto_increment db, entry_user = em,
                        entry_text = body_text b, entry_createdAt = db_now\<rparr>] \<and>
         EntryCompetency (snd (POST sess req db_now js_now db)) =
           EntryCompetency db @
           map (\<lambda>c. \<lparr>ec_entryID = auto_increment db, ec_competencyID = c\<rparr>)
             (body_competencyIDs b) \<and>
         (\<exists>row \<in> set (entries_of (GET sess (snd (POST sess req db_now js_now db)))).
            row_id row = auto_increment db \<and> row_text row = body_text b \<and>
            row_createdAt row = db_now)"
proof -
  let ?db' = "snd (POST sess req db_now js_now db)"
  let ?e = "\<lparr>entry_id = auto_increment db, entry_user = em,
             entry_text = body_text b, entry_createdAt = db_now\<rparr>"
  have res: "fst (POST sess req db_now js_now db) =
           \<lparr>status = 200,
            payload = CreatedJson
              \<lparr>created_id = auto_increment db, created_text = body_text b,
               created_createdAt = js_now, created_competencies = body_competencyIDs b\<rparr>\<rparr>"
    by (simp add: POST_unfold [OF assms(1,2)] json_response_def)
  have ent: "Entry ?db' = Entry db @ [?e]"
    by (simp add: POST_unfold [OF assms(1,2)])
  have tags: "EntryCompetency ?db' = EntryCompetency db @
           map (\<lambda>c. \<lparr>ec_entryID = auto_increment db, ec_competencyID = c\<rparr>)
             (body_competencyIDs b)"
    by (simp add: POST_unfold [OF assms(1,2)])
  have "primary_key ?db'"
    using assms by (rule POST_primary_key)
  then have d: "distinct (map entry_id (Entry ?db'))"
    by (simp add: primary_key_def)
  have m: "?e \<in> set (Entry ?db')" by (simp add: ent)
  have "\<exists>row \<in> set (select_entries em ?db').
           row_id row = entry_id ?e \<and> row_text row = entry_text ?e \<and>
           row_createdAt row = entry_createdAt ?e"
    using d m by (rule select_entries_row) simp
  then have "\<exists>row \<in> set (entries_of (GET sess ?db')).
            row_id row = auto_increment db \<and> row_text row = body_text b \<and>
            row_createdAt row = db_now"
    using assms(1) by (simp add: GET_def entries_of_def json_response_def)
  with res ent tags show ?thesis by simp
qed

theorem POST_creates_entry_witness:
  "fst (POST alice \<lparr>pathname = ''/api/entry'',
          json = Some \<lparr>body_text = ''third'', body_competencyIDs = [3, 1]\<rparr>\<rparr> 100 101 journal) =
     \<lparr>status = 200,
      payload = CreatedJson \<lparr>created_id = 3, created_text = ''third'', created_createdAt = 101,
                             created_competencies = [3, 1]\<rparr>\<rparr> \<and>
   Entry (snd (POST alice \<lparr>pathname = ''/api/entry'',
          json = Some \<lparr>body_text = ''third'', body_competencyIDs = [3, 1]\<rparr>\<rparr> 100 101 journal)) =
     Entry journal @ [\<lparr>entry_id = 3, entry_user = ''alice@example.org'', entry_text = ''third'',
                       entry_createdAt = 100\<rparr>] \<and>
   EntryCompetency (snd (POST alice \<lparr>pathname = ''/api/entry'',
          json = Some \<lparr>body_text = ''third'', body_competencyIDs = [3, 1]\<rparr>\<rparr> 100 101 journal)) =
     EntryCompetency journal @
       [\<lparr>ec_entryID = 3, ec_competencyID = 3\<rparr>, \<lparr>ec_entryID = 3, ec_competencyID = 1\<rparr>] \<and>
   (\<exists>row \<in> set (entries_of (GET alice (snd (POST alice \<lparr>pathname = ''/api/entry'',
          json = Some \<lparr>body_text = ''third'', body_competencyIDs = [3, 1]\<rparr>\<rparr> 100 101 journal)))).
      row_id row = 3 \<and> row_text row = ''third'' \<and> row_createdAt row = 100)"
proof -
  let ?b = "\<lparr>body_text = ''third'', body_competencyIDs = [3, 1]\<rparr>"
  let ?req = "\<lparr>pathname = ''/api/entry'', json = Some ?b\<rparr>"
  have h2: "json ?req = Some ?b" by simp
  have h3: "primary_key journal" by (simp add: primary_key_def journal_def)
  have a: "auto_increment journal = 3" by (simp add: journal_def)
  show ?thesis
    using POST_creates_entry [OF example_sessions(1) h2 h3, of 100 101]
    by (simp add: a)
qed

subsection \<open>The competencies of a listed entry\<close>

text \<open>
  The joined rows are the blocks of the entries, one after the other; under the
  primary key the group of an identifier is the block of its entry.
\<close>

lemma left_join_append:
  "left_join cond (xs @ xs') ys = left_join cond xs ys @ left_join cond xs' ys"
  by (simp add: left_join_def)

lemma left_join_concat:
  "left_join cond (concat xss) ys = concat (map (\<lambda>xs. left_join cond xs ys) xss)"
  by (induction xss) (simp_all add: left_join_append, simp add: left_join_def)

lemma joined_blocks: "joined db = concat (map (block db) (Entry db))"
proof -
  have "left_join (\<lambda>e r. entry_id e = ec_entryID r) (Entry db) (EntryCompetency db) =
        concat (map (\<lambda>e. left_join (\<lambda>e r. entry_id e = ec_entryID r) [e] (EntryCompetency db))
          (Entry db))"
    by (simp add: left_join_def)
  moreover have "block db = (\<lambda>x. left_join (\<lambda>(e, ec) c. case ec of
                               None \<Rightarrow> False
                             | Some r \<Rightarrow> ec_competencyID r = competency_id c)
       (left_join (\<lambda>e r. entry_id e = ec_entryID r) [x] (EntryCompetency db))
       (Competency db))"
    by (rule ext) (simp add: block_def)
  ultimately show ?thesis
    by (simp add: joined_def left_join_concat comp_def)
qed

lemma block_entry: "r \<in> set (block db e) \<Longrightarrow> fst (fst r) = e"
proof -
  assume "r \<in> set (block db e)"
  then have "fst r \<in> fst ` set (block db e)" by (rule imageI)
  then have "fst r \<in> set (left_join (\<lambda>e r. entry_id e = ec_entryID r) [e] (EntryCompetency db))"
    by (simp add: block_def left_join_fst)
  then have "fst (fst r) \<in> fst ` set (left_join (\<lambda>e r. entry_id e = ec_entryID r) [e] (EntryCompetency db))"
    by (rule imageI)
  then show ?thesis by (simp add: left_join_fst)
qed

lemma filter_concat_blocks:
  assumes "\<And>x r. r \<in> set (f x) \<Longrightarrow> Q r = P x"
  shows "filter Q (concat (map f xs)) = concat (map f (filter P xs))"
proof (induction xs)
  case Nil
  then show ?case by simp
next
  case (Cons x xs)
  have "filter Q (f x) = (if P x then f x else [])"
    using assms [of _ x] by (auto simp: filter_empty_conv filter_id_conv)
  with Cons show ?case by simp
qed

lemma filter_key_single:
  "distinct (map f xs) \<Longrightarrow> x \<in> set xs \<Longrightarrow> filter (\<lambda>y. f y = f x) xs = [x]"
proof (induction xs)
  case Nil
  then show ?case by simp
next
  case (Cons a xs)
  show ?case
  proof (cases "a = x")
    case True
    then have "f x \<notin> f ` set xs"
      using Cons.prems by simp
    then have "\<And>y. y \<in> set xs \<Longrightarrow> f y \<noteq> f x"
      by (metis imageI)
    then have "filter (\<lambda>y. f y = f x) xs = []"
      by (simp add: filter_empty_conv)
    with True show ?thesis by simp
  next
    case False
    then have "f a \<noteq> f x" using Cons.prems by force
    with False Cons show ?thesis by simp
  qed
qed

lemma group_is_block:
  assumes "distinct (map entry_id (Entry db))" and "e \<in> set (Entry db)" and "entry_user e = u"
  shows "filter (\<lambda>r. entry_id (fst (fst r)) = entry_id e)
           (filter (\<lambda>r. entry_user (fst (fst r)) = u) (joined db)) = block db e"
proof -
  have "filter (\<lambda>r. entry_id (fst (fst r)) = entry_id e)
           (filter (\<lambda>r. entry_user (fst (fst r)) = u) (joined db)) =
        filter (\<lambda>r. entry_user (fst (fst r)) = u)
           (filter (\<lambda>r. entry_id (fst (fst r)) = entry_id e) (joined db))"
    by (simp add: conj_commute)
  also have "filter (\<lambda>r. entry_id (fst (fst r)) = entry_id e) (joined db) =
        concat (map (block db) (filter (\<lambda>x. entry_id x = entry_id e) (Entry db)))"
    unfolding joined_blocks by (rule filter_concat_blocks) (simp add: block_entry)
  also have "filter (\<lambda>x. entry_id x = entry_id e) (Entry db) = [e]"
    using assms(1,2) by (rule filter_key_single)
  also have "filter (\<lambda>r. entry_user (fst (fst r)) = u) (concat (map (block db) [e])) = block db e"
    using assms(3) by (simp add: filter_id_conv block_entry)
  finally show ?thesis .
qed

text \<open>
  What \<open>JSON_ARRAYAGG(c.id)\<close> collects for an entry, when competency identifiers are
  unique: one element per tag row, in table order, the identifier when the catalog
  has it and NULL when it has not; and a single NULL when the entry has no tag row.
\<close>

lemma block_competencies:
  assumes "distinct (map competency_id (Competency db))"
  shows "map (\<lambda>x. map_option competency_id (snd x)) (block db e) =
     (if attached (entry_id e) db = [] then [None]
      else map (\<lambda>k. if k \<in> competency_id ` set (Competency db) then Some k else None)
             (attached (entry_id e) db))"
proof -
  define ts where "ts = filter (\<lambda>r. entry_id e = ec_entryID r) (EntryCompetency db)"
  have att: "attached (entry_id e) db = map ec_competencyID ts"
    by (simp add: attached_def ts_def eq_commute)
  have one: "map (\<lambda>x. map_option competency_id (snd x))
          (left_join (\<lambda>(e, ec) c. case ec of None \<Rightarrow> False
                                 | Some r \<Rightarrow> ec_competencyID r = competency_id c)
             [(e, Some t)] (Competency db)) =
        [if ec_competencyID t \<in> competency_id ` set (Competency db)
         then Some (ec_competencyID t) else None]" for t
  proof (cases "ec_competencyID t \<in> competency_id ` set (Competency db)")
    case True
    then obtain c where c: "c \<in> set (Competency db)" "competency_id c = ec_competencyID t"
      by auto
    have "filter (\<lambda>y. competency_id y = competency_id c) (Competency db) = [c]"
      using assms c(1) by (rule filter_key_single)
    then have "filter (\<lambda>y. ec_competencyID t = competency_id y) (Competency db) = [c]"
      by (simp add: c(2) eq_commute)
    then show ?thesis using True c(2) by (simp add: left_join_def)
  next
    case False
    then have "filter (\<lambda>y. ec_competencyID t = competency_id y) (Competency db) = []"
      by (auto simp: filter_empty_conv)
    then show ?thesis using False by (simp add: left_join_def)
  qed
  have many: "map (\<lambda>x. map_option competency_id (snd x))
          (left_join (\<lambda>(e, ec) c. case ec of None \<Rightarrow> False
                                 | Some r \<Rightarrow> ec_competencyID r = competency_id c)
             (map (\<lambda>y. (e, Some y)) us) (Competency db)) =
        map (\<lambda>k. if k \<in> competency_id ` set (Competency db) then Some k else None)
          (map ec_competencyID us)" for us
  proof (induction us)
    case Nil
    then show ?case by (simp add: left_join_def)
  next
    case (Cons t us)
    have "left_join (\<lambda>(e, ec) c. case ec of None \<Rightarrow> False
                                 | Some r \<Rightarrow> ec_competencyID r = competency_id c)
             (map (\<lambda>y. (e, Some y)) (t # us)) (Competency db) =
          left_join (\<lambda>(e, ec) c. case ec of None \<Rightarrow> False
                                 | Some r \<Rightarrow> ec_competencyID r = competency_id c)
             [(e, Some t)] (Competency db) @
          left_join (\<lambda>(e, ec) c. case ec of None \<Rightarrow> False
                                 | Some r \<Rightarrow> ec_competencyID r = competency_id c)
             (map (\<lambda>y. (e, Some y)) us) (Competency db)"
      by (simp add: left_join_def)
    then show ?case using Cons one [of t] by simp
  qed
  show ?thesis
  proof (cases ts)
    case Nil
    then show ?thesis
      using att by (simp add: block_def left_join_def ts_def)
  next
    case (Cons t us)
    then have "left_join (\<lambda>e r. entry_id e = ec_entryID r) [e] (EntryCompetency db) =
               map (\<lambda>y. (e, Some y)) ts"
      by (simp add: left_join_def ts_def)
    then show ?thesis
      using att Cons many [of ts] by (simp add: block_def)
  qed
qed

text \<open>
  So the list answer shows exactly the attached identifiers for an entry that has at
  least one tag row, all of them in the catalog.
\<close>

lemma select_entries_competencies:
  assumes "distinct (map entry_id (Entry db))"
    and "distinct (map competency_id (Competency db))"
    and "e \<in> set (Entry db)" and "entry_user e = u"
  shows "\<exists>row \<in> set (select_entries u db).
           row_id row = entry_id e \<and> row_text row = entry_text e \<and>
           row_competencies row =
             (if attached (entry_id e) db = [] then [None]
              else map (\<lambda>k. if k \<in> competency_id ` set (Competency db) then Some k else None)
                     (attached (entry_id e) db))"
proof -
  define rows where "rows = filter (\<lambda>r. entry_user (fst (fst r)) = u) (joined db)"
  define ids where "ids = rev (sort (remdups (map (\<lambda>r. entry_id (fst (fst r))) rows)))"
  define f where "f = (\<lambda>i. case filter (\<lambda>r. entry_id (fst (fst r)) = i) rows of
                             [] \<Rightarrow> []
                           | r # rs \<Rightarrow> [aggregate r rs])"
  have sel: "select_entries u db = concat (map f ids)"
    by (simp add: select_entries_def rows_def ids_def f_def)
  have g: "filter (\<lambda>r. entry_id (fst (fst r)) = entry_id e) rows = block db e"
    unfolding rows_def using assms(1,3,4) by (rule group_is_block)
  from assms(3) have "e \<in> (\<lambda>r. fst (fst r)) ` set (joined db)"
    by (simp add: joined_entries)
  then obtain r0 where r0: "r0 \<in> set (joined db)" "fst (fst r0) = e"
    by blast
  with assms(4) have in_rows: "r0 \<in> set rows" by (simp add: rows_def)
  then have "r0 \<in> set (filter (\<lambda>r. entry_id (fst (fst r)) = entry_id e) rows)"
    using r0(2) by simp
  then have "r0 \<in> set (block db e)" by (simp only: g)
  then obtain r rs where b: "block db e = r # rs" by (cases "block db e") auto
  then have "r \<in> set (block db e)" by simp
  then have re: "fst (fst r) = e" by (rule block_entry)
  have m: "entry_id e \<in> set ids" using in_rows r0(2) by (auto simp: ids_def)
  have "f (entry_id e) = [aggregate r rs]"
    using g b by (simp add: f_def)
  then have "aggregate r rs \<in> set (f (entry_id e))" by simp
  with m have "aggregate r rs \<in> set (select_entries u db)"
    unfolding sel by (rule concat_member)
  moreover have "row_competencies (aggregate r rs) =
      map (\<lambda>x. map_option competency_id (snd x)) (block db e)"
    by (simp add: aggregate_def b)
  moreover have "row_id (aggregate r rs) = entry_id e \<and> row_text (aggregate r rs) = entry_text e"
    using re by (simp add: aggregate_def)
  ultimately show ?thesis
    using block_competencies [OF assms(2), of e] by auto
qed

text \<open>
  C2. The claim is that the list answer annotates an entry that has no tag row with
  an empty competency list. The left joins give such an entry one joined row whose
  \<open>c.id\<close> is NULL, and \<open>JSON_ARRAYAGG\<close> aggregates that NULL: the entry is listed,
  with the one-element array \<open>[null]\<close>.
\<close>

theorem GET_untagged:
  "GET alice untagged =
     \<lparr>status = 200,
      payload = EntriesJson
        [\<lparr>row_id = 1, row_text = ''first'', row_createdAt = 10, row_competencies = [None]\<rparr>]\<rparr>"
  by (simp add: GET_def example_sessions untagged_def select_entries_def joined_def left_join_def
      aggregate_def json_response_def)

text \<open>
  The example of the specification: create with competencies 1 and 3, update with
  competency 2, and the list shows competency 2 for the entry.
\<close>

lemma create_then_update:
  "entries_of (GET alice
     (snd (PUT decimal_num alice
        \<lparr>pathname = ''/api/entry/3'',
         json = Some \<lparr>body_text = ''third'', body_competencyIDs = [2]\<rparr>\<rparr>
        (snd (POST alice
           \<lparr>pathname = ''/api/entry'',
            json = Some \<lparr>body_text = ''third'', body_competencyIDs = [1, 3]\<rparr>\<rparr>
           100 101 journal))))) =
   [\<lparr>row_id = 3, row_text = ''third'', row_createdAt = 100, row_competencies = [Some 2]\<rparr>,
    \<lparr>row_id = 1, row_text = ''first'', row_createdAt = 10, row_competencies = [Some 1, Some 3]\<rparr>]"
  by (simp add: GET_def PUT_def POST_def example_sessions journal_def catalog_def pop_def
      decimal_num_def insert_entry_def insert_entry_competency_def update_entry_def
      delete_entry_competency_def select_entries_def joined_def left_join_def aggregate_def
      json_response_def entries_of_def)

text \<open>
  A delete at the collection path, on the example database: the word \<open>entry\<close> is
  read as 0, no row has that identifier, and the answer is 404.
\<close>

lemma collection_path_example:
  "DELETE decimal_num alice \<lparr>pathname = ''/api/entry'', json = None\<rparr> journal =
     (\<lparr>status = 404, payload = ErrorJson ''Entry not found or not authorized to delete''\<rparr>,
      journal)"
  by (simp add: DELETE_def example_sessions journal_def pop_def decimal_num_def
      delete_entry_def delete_entry_competency_def json_response_def)

end
